theory Spec2Isabelle
  imports Complex_Main "HOL-Library.Multiset"
begin

section \<open>The traffic light detector node (ros/src/tl\_detector/tl\_detector.py)\<close>

text \<open>
  A shallow embedding of the class \<open>TLDetector\<close>. The object \<open>self\<close> is a record that
  every callback takes and returns; an exception is the left summand of the callback's
  result; a value handed to \<open>upcoming_red_light_pub.publish\<close> is returned beside the new
  state. Python floats are idealised as real numbers (no rounding, no NaN, no infinity
  but the initial \<open>float('inf')\<close> of the minimum search, which is \<open>None\<close>).
\<close>

subsection \<open>Messages\<close>

text \<open>\<open>geometry_msgs/Point\<close> and \<open>geometry_msgs/Quaternion\<close>: the fields x, y, z (and w).\<close>

record Point =
  pos_x :: real
  pos_y :: real
  pos_z :: real

record Quaternion =
  ori_x :: real
  ori_y :: real
  ori_z :: real
  ori_w :: real

text \<open>
  \<open>PoseStamped\<close>, read by the node only through \<open>.pose.position\<close> and
  \<open>.pose.orientation\<close>.
\<close>

record Pose =
  position :: Point
  orientation :: Quaternion

text \<open>
  The colour constants of \<open>styx_msgs/TrafficLight\<close> (a \<open>uint8\<close> field). The message
  declaration is not part of the source file; the node only compares colours for
  equality, and the values below are those of the message file.
\<close>

type_synonym color = nat

definition RED :: color where "RED = 0"
definition YELLOW :: color where "YELLOW = 1"
definition GREEN :: color where "GREEN = 2"
definition UNKNOWN :: color where "UNKNOWN = 4"

text \<open>A light is read through \<open>light.pose.pose.position\<close> and \<open>light.state\<close>.\<close>

record TrafficLight =
  tl_position :: Point
  tl_state :: color

text \<open>A waypoint is read through \<open>wp.pose.pose.position\<close>.\<close>

record Waypoint =
  wp_position :: Point

text \<open>The entries of \<open>config['camera_info']\<close> that \<open>project_to_image_plane\<close> reads.\<close>

record CameraInfo =
  focal_length_x :: real
  focal_length_y :: real
  image_width :: nat
  image_height :: nat

datatype error = IndexError | AttributeError

subsection \<open>The object\<close>

text \<open>
  The attributes of \<open>self\<close>. \<open>bridge\<close> stands for the method \<open>self.bridge.imgmsg_to_cv2\<close>
  of the external image bridge, an opaque function of the image message; \<open>listener\<close> is
  what \<open>self.listener.lookupTransform\<close> yields now, \<open>None\<close> when it raises one of the
  exceptions the code catches. \<open>has_image\<close> is first assigned by \<open>image_cb\<close>; before that
  it is \<open>False\<close> here. \<open>prev_light_loc\<close>, only ever assigned, is left out, as are the
  subscriber and publisher handles.
\<close>

record ('img, 'cv) TLDetector =
  pose :: "Pose option"
  waypoints :: "Waypoint list"
  camera_image :: "'img option"
  lights :: "TrafficLight list"
  config :: CameraInfo
  bridge :: "'img \<Rightarrow> 'cv"
  listener :: "(real list \<times> real list) option"
  state :: color
  last_state :: color
  last_wp :: int
  state_count :: nat
  light_waypoints :: "nat list list"
  light_indexed :: bool
  has_image :: bool

definition STATE_COUNT_THRESHOLD :: nat where
  "STATE_COUNT_THRESHOLD = 3"

text \<open>The attribute values \<open>__init__\<close> assigns.\<close>

definition init :: "CameraInfo \<Rightarrow> ('img \<Rightarrow> 'cv) \<Rightarrow> ('img, 'cv) TLDetector" where
  "init cfg br =
     \<lparr> pose = None, waypoints = [], camera_image = None, lights = [],
       config = cfg, bridge = br, listener = None,
       state = UNKNOWN, last_state = UNKNOWN, last_wp = - 1, state_count = 0,
       light_waypoints = [], light_indexed = False, has_image = False \<rparr>"

definition pose_cb :: "Pose \<Rightarrow> ('img, 'cv) TLDetector \<Rightarrow> ('img, 'cv) TLDetector" where
  "pose_cb msg s = s\<lparr>pose := Some msg\<rparr>"

subsection \<open>Indexing the lights\<close>

text \<open>The squared distance of the inner loop of \<open>index_lights\<close>.\<close>

definition sq_distance :: "Point \<Rightarrow> Point \<Rightarrow> real" where
  "sq_distance light_pos wp_pos =
     (pos_x light_pos - pos_x wp_pos)\<^sup>2
     + (pos_y light_pos - pos_y wp_pos)\<^sup>2
     + (pos_z light_pos - pos_z wp_pos)\<^sup>2"

text \<open>The list \<open>distances\<close> of pairs \<open>(i, distance)\<close> built for one light.\<close>

definition distances :: "Waypoint list \<Rightarrow> TrafficLight \<Rightarrow> (nat \<times> real) list" where
  "distances wps light =
     map (\<lambda>(i, wp). (i, sq_distance (tl_position light) (wp_position wp))) (enumerate 0 wps)"

text \<open>
  \<open>distances.sort(key=lambda d: d[1])\<close> followed by \<open>map(lambda d: d[0], distances)\<close>
  (a list, in the Python 2 of the node). Python's sort is stable, as is \<^const>\<open>sort_key\<close>.
\<close>

definition waypoint_indices :: "Waypoint list \<Rightarrow> TrafficLight \<Rightarrow> nat list" where
  "waypoint_indices wps light = map fst (sort_key snd (distances wps light))"

text \<open>The outer loop: one \<open>append\<close> to \<open>self.light_waypoints\<close> for each light.\<close>

fun index_loop :: "Waypoint list \<Rightarrow> TrafficLight list \<Rightarrow> nat list list \<Rightarrow> nat list list" where
  "index_loop wps [] lw = lw"
| "index_loop wps (light # rest) lw = index_loop wps rest (lw @ [waypoint_indices wps light])"

definition index_lights :: "('img, 'cv) TLDetector \<Rightarrow> ('img, 'cv) TLDetector" where
  "index_lights s =
     s\<lparr>light_waypoints := index_loop (waypoints s) (lights s) (light_waypoints s),
       light_indexed := True\<rparr>"

text \<open>The guard both callbacks evaluate after storing their message.\<close>

definition should_index :: "('img, 'cv) TLDetector \<Rightarrow> bool" where
  "should_index s \<longleftrightarrow> waypoints s \<noteq> [] \<and> lights s \<noteq> [] \<and> \<not> light_indexed s"

definition waypoints_cb :: "Waypoint list \<Rightarrow> ('img, 'cv) TLDetector \<Rightarrow> ('img, 'cv) TLDetector" where
  "waypoints_cb msg s0 =
     (let s = s0\<lparr>waypoints := msg\<rparr> in if should_index s then index_lights s else s)"

definition traffic_cb :: "TrafficLight list \<Rightarrow> ('img, 'cv) TLDetector \<Rightarrow> ('img, 'cv) TLDetector" where
  "traffic_cb msg s0 =
     (let s = s0\<lparr>lights := msg\<rparr> in if should_index s then index_lights s else s)"

subsection \<open>Locating the closest light ahead\<close>

text \<open>The numpy operations the locator uses, on vectors as lists.\<close>

definition dot :: "real list \<Rightarrow> real list \<Rightarrow> real" where
  "dot a b = sum_list (map2 (*) a b)"

definition vsub :: "real list \<Rightarrow> real list \<Rightarrow> real list" where
  "vsub a b = map2 (-) a b"

definition norm2 :: "real list \<Rightarrow> real" where
  "norm2 a = sqrt (dot a a)"

text \<open>\<open>np.matmul(v, m)\<close> for a vector \<open>v\<close> and a square matrix \<open>m\<close> given by its rows.\<close>

definition matmul :: "real list \<Rightarrow> real list list \<Rightarrow> real list" where
  "matmul v m = map (\<lambda>j. dot v (map (\<lambda>row. row ! j) m)) [0..<length v]"

text \<open>
  \<open>tf.transformations.quaternion_matrix\<close> belongs to the ROS library \<open>tf\<close>, not to the
  repository. It is written here after the library's source: the quaternion is given as
  (x, y, z, w), a quaternion of squared norm below \<open>_EPS\<close> (four times the machine
  epsilon of a double) yields the identity, and otherwise the homogeneous rotation matrix
  of the normalised quaternion is returned, for column vectors (\<open>numpy.dot(M, v)\<close>).
\<close>

definition EPS :: real where
  "EPS = 4 / 2 ^ 52"

definition quaternion_matrix :: "real list \<Rightarrow> real list list" where
  "quaternion_matrix quaternion =
     (let q = take 4 quaternion; nq = dot q q in
      if nq < EPS then [[1, 0, 0, 0], [0, 1, 0, 0], [0, 0, 1, 0], [0, 0, 0, 1]]
      else
        let q = map (\<lambda>a. a * sqrt (2 / nq)) q;
            outer = (\<lambda>i j. q ! i * q ! j)
        in [[1 - outer 1 1 - outer 2 2, outer 0 1 - outer 2 3, outer 0 2 + outer 1 3, 0],
            [outer 0 1 + outer 2 3, 1 - outer 0 0 - outer 2 2, outer 1 2 - outer 0 3, 0],
            [outer 0 2 - outer 1 3, outer 1 2 + outer 0 3, 1 - outer 0 0 - outer 1 1, 0],
            [0, 0, 0, 1]])"

text \<open>\<open>ego_dir\<close>: the row vector (1, 0, 0, 0) times the matrix, cut to three entries.\<close>

definition ego_dir :: "Quaternion \<Rightarrow> real list" where
  "ego_dir q =
     (let rot = quaternion_matrix [ori_x q, ori_y q, ori_z q, ori_w q];
          init_dir = [1, 0, 0, 0]
      in take 3 (matmul init_dir rot))"

text \<open>\<open>distance < min_dist\<close>, where \<open>None\<close> is the initial \<open>float('inf')\<close>.\<close>

definition below :: "real \<Rightarrow> real option \<Rightarrow> bool" where
  "below d m = (case m of None \<Rightarrow> True | Some m' \<Rightarrow> d < m')"

definition light_pos :: "TrafficLight \<Rightarrow> real list" where
  "light_pos light =
     [pos_x (tl_position light), pos_y (tl_position light), pos_z (tl_position light)]"

text \<open>The loop over \<open>enumerate(self.lights)\<close>, with \<open>min_dist\<close> and \<open>light_index\<close> passed on.\<close>

fun closest_loop ::
  "real list \<Rightarrow> real list \<Rightarrow> (nat \<times> TrafficLight) list \<Rightarrow> real option \<Rightarrow> nat option \<Rightarrow> nat option"
where
  "closest_loop ego_p ego_d [] min_dist light_index = light_index"
| "closest_loop ego_p ego_d ((i, light) # rest) min_dist light_index =
     (let light_dir = vsub (light_pos light) ego_p in
      if dot ego_d light_dir > 0 then
        let distance = norm2 (vsub ego_p (light_pos light)) in
        if below distance min_dist
        then closest_loop ego_p ego_d rest (Some distance) (Some i)
        else closest_loop ego_p ego_d rest min_dist light_index
      else closest_loop ego_p ego_d rest min_dist light_index)"

text \<open>
  \<open>get_closest_light\<close> ignores its argument and reads \<open>self.pose\<close>; with no pose stored
  the attribute access on \<open>None\<close> raises.
\<close>

definition get_closest_light :: "('img, 'cv) TLDetector \<Rightarrow> Pose \<Rightarrow> error + nat option" where
  "get_closest_light s pose_arg =
     (case pose s of
        None \<Rightarrow> Inl AttributeError
      | Some p \<Rightarrow>
          let ego_pos = [pos_x (position p), pos_y (position p), pos_z (position p)]
          in Inr (closest_loop ego_pos (ego_dir (orientation p)) (enumerate 0 (lights s)) None None))"

subsection \<open>Colour and waypoint of a light\<close>

definition project_to_image_plane :: "('img, 'cv) TLDetector \<Rightarrow> Point \<Rightarrow> int \<times> int" where
  "project_to_image_plane s point_in_world =
     (let fx = focal_length_x (config s);
          fy = focal_length_y (config s);
          w = image_width (config s);
          h = image_height (config s);
          trans = map_option fst (listener s);
          x = 0;
          y = 0
      in (x, y))"

text \<open>
  \<open>get_light_state\<close>: without an image it returns \<open>False\<close>, which Python compares as 0;
  otherwise the image is converted, the light projected, and \<open>light.state\<close> returned.
\<close>

definition get_light_state :: "('img, 'cv) TLDetector \<Rightarrow> TrafficLight \<Rightarrow> color" where
  "get_light_state s light =
     (if \<not> has_image s then 0
      else
        let cv_image = map_option (bridge s) (camera_image s);
            (x, y) = project_to_image_plane s (tl_position light)
        in tl_state light)"

text \<open>Python's \<open>xs[i]\<close> for an index that is not negative.\<close>

definition index :: "'a list \<Rightarrow> nat \<Rightarrow> error + 'a" where
  "index xs i = (if i < length xs then Inr (xs ! i) else Inl IndexError)"

definition get_light_wp :: "('img, 'cv) TLDetector \<Rightarrow> nat \<Rightarrow> error + nat" where
  "get_light_wp s light_index =
     (case index (light_waypoints s) light_index of
        Inl e \<Rightarrow> Inl e
      | Inr way_points \<Rightarrow> index way_points 0)"

definition process_traffic_lights :: "('img, 'cv) TLDetector \<Rightarrow> error + int \<times> color" where
  "process_traffic_lights s =
     (case (case pose s of
              None \<Rightarrow> Inr None
            | Some p \<Rightarrow> get_closest_light s p) of
        Inl e \<Rightarrow> Inl e
      | Inr None \<Rightarrow> Inr (- 1, UNKNOWN)
      | Inr (Some light_index) \<Rightarrow>
          (case index (lights s) light_index of
             Inl e \<Rightarrow> Inl e
           | Inr light \<Rightarrow>
               (case get_light_wp s light_index of
                  Inl e \<Rightarrow> Inl e
                | Inr light_wp \<Rightarrow> Inr (int light_wp, get_light_state s light))))"

subsection \<open>The observation cycle\<close>

text \<open>
  Lines 109 to 119 of \<open>image_cb\<close>: the three branches and the final increment. The
  second component is the value published in this cycle, \<open>None\<close> when the branch taken
  does not call \<open>publish\<close>.
\<close>

definition debounce ::
  "int \<Rightarrow> color \<Rightarrow> ('img, 'cv) TLDetector \<Rightarrow> ('img, 'cv) TLDetector \<times> int option" where
  "debounce light_wp st s =
     (let (s', out) =
        (if state s \<noteq> st then (s\<lparr>state_count := 0, state := st\<rparr>, None)
         else if state_count s \<ge> STATE_COUNT_THRESHOLD then
           (let lw = (if st = RED then light_wp else - 1)
            in (s\<lparr>last_state := state s, last_wp := lw\<rparr>, Some lw))
         else (s, Some (last_wp s)))
      in (s'\<lparr>state_count := state_count s' + 1\<rparr>, out))"

definition image_cb ::
  "'img \<Rightarrow> ('img, 'cv) TLDetector \<Rightarrow> error + ('img, 'cv) TLDetector \<times> int option" where
  "image_cb msg s0 =
     (let s = s0\<lparr>has_image := True, camera_image := Some msg\<rparr> in
      case process_traffic_lights s of
        Inl e \<Rightarrow> Inl e
      | Inr (light_wp, st) \<Rightarrow> Inr (debounce light_wp st s))"

text \<open>A run of the debouncer over a list of observations (candidate waypoint, colour).\<close>

fun cycles ::
  "('img, 'cv) TLDetector \<Rightarrow> (int \<times> color) list \<Rightarrow> ('img, 'cv) TLDetector \<times> int option list" where
  "cycles s [] = (s, [])"
| "cycles s ((light_wp, st) # obs) =
     (let (s1, out) = debounce light_wp st s;
          (s2, outs) = cycles s1 obs
      in (s2, out # outs))"

subsection \<open>The node as a process\<close>

text \<open>
  The messages the four subscriptions deliver. rospy runs one callback for each message
  and logs an exception that escapes a callback; the attributes assigned before the
  exception keep their values. \<open>after_image_cb\<close> is the object after \<open>image_cb\<close>, whether
  it returned or raised. \<open>waypoints_cb\<close> cancels its subscription, so that a node receives
  one route message; the runs below allow any sequence of messages.
\<close>

datatype 'img event =
  PoseMsg Pose
| WaypointsMsg "Waypoint list"
| LightsMsg "TrafficLight list"
| ImageMsg 'img

definition after_image_cb :: "'img \<Rightarrow> ('img, 'cv) TLDetector \<Rightarrow> ('img, 'cv) TLDetector" where
  "after_image_cb msg s =
     (case image_cb msg s of
        Inl e \<Rightarrow> s\<lparr>has_image := True, camera_image := Some msg\<rparr>
      | Inr (s', out) \<Rightarrow> s')"

fun deliver :: "'img event \<Rightarrow> ('img, 'cv) TLDetector \<Rightarrow> ('img, 'cv) TLDetector" where
  "deliver (PoseMsg msg) s = pose_cb msg s"
| "deliver (WaypointsMsg msg) s = waypoints_cb msg s"
| "deliver (LightsMsg msg) s = traffic_cb msg s"
| "deliver (ImageMsg msg) s = after_image_cb msg s"


text \<open>Whether the delivery of a message calls \<open>index_lights\<close>, and how often a run does.\<close>

fun builds_now :: "'img event \<Rightarrow> ('img, 'cv) TLDetector \<Rightarrow> bool" where
  "builds_now (WaypointsMsg msg) s = should_index (s\<lparr>waypoints := msg\<rparr>)"
| "builds_now (LightsMsg msg) s = should_index (s\<lparr>lights := msg\<rparr>)"
| "builds_now (PoseMsg msg) s = False"
| "builds_now (ImageMsg msg) s = False"

fun builds :: "('img, 'cv) TLDetector \<Rightarrow> 'img event list \<Rightarrow> nat" where
  "builds s [] = 0"
| "builds s (e # es) = (if builds_now e s then 1 else 0) + builds (deliver e s) es"

subsection \<open>A node for the examples\<close>

text \<open>
  A freshly constructed node (images and converted images are numbers here), and the
  scenario of one red light at (1, 0, 0) on a route of three waypoints along the x axis,
  seen from the origin by a vehicle heading along the x axis.
\<close>

definition node0 :: "(nat, nat) TLDetector" where
  "node0 = init \<lparr>focal_length_x = 1, focal_length_y = 1, image_width = 800, image_height = 600\<rparr> id"

definition point :: "real \<Rightarrow> real \<Rightarrow> real \<Rightarrow> Point" where
  "point x y z = \<lparr>pos_x = x, pos_y = y, pos_z = z\<rparr>"

definition pose0 :: Pose where
  "pose0 = \<lparr>position = point 0 0 0, orientation = \<lparr>ori_x = 0, ori_y = 0, ori_z = 0, ori_w = 1\<rparr>\<rparr>"

definition route0 :: "Waypoint list" where
  "route0 = [\<lparr>wp_position = point 0 0 0\<rparr>, \<lparr>wp_position = point 1 0 0\<rparr>, \<lparr>wp_position = point 2 0 0\<rparr>]"

definition lights0 :: "TrafficLight list" where
  "lights0 = [\<lparr>tl_position = point 1 0 0, tl_state = RED\<rparr>]"


text \<open>The node after the pose, the route and the lights have arrived, in this order.\<close>

definition node1 :: "(nat, nat) TLDetector" where
  "node1 = traffic_cb lights0 (waypoints_cb route0 (pose_cb pose0 node0))"

text \<open>The node after the pose and the lights have arrived, the route still missing.\<close>

definition node_unindexed :: "(nat, nat) TLDetector" where
  "node_unindexed = traffic_cb lights0 (pose_cb pose0 node0)"


text \<open>
  The invariant of the stored waypoint: it is the sentinel, or the head of one of the
  sequences of the index.
\<close>

definition last_wp_inv :: "('img, 'cv) TLDetector \<Rightarrow> bool" where
  "last_wp_inv s \<longleftrightarrow>
     last_wp s = - 1
     \<or> (\<exists>k < length (light_waypoints s).
           light_waypoints s ! k \<noteq> [] \<and> last_wp s = int (hd (light_waypoints s ! k)))"


subsection \<open>The locator as the specification words it\<close>

text \<open>
  The rotation of a vector \<open>v\<close> by a quaternion \<open>q\<close> is the vector part of
  \<open>q v q\<^sup>-\<^sup>1\<close>, with the Hamilton product and \<open>v\<close> taken as a quaternion of real part 0.
\<close>

definition qmul :: "Quaternion \<Rightarrow> Quaternion \<Rightarrow> Quaternion" where
  "qmul a b =
     \<lparr>ori_x = ori_w a * ori_x b + ori_x a * ori_w b + ori_y a * ori_z b - ori_z a * ori_y b,
      ori_y = ori_w a * ori_y b - ori_x a * ori_z b + ori_y a * ori_w b + ori_z a * ori_x b,
      ori_z = ori_w a * ori_z b + ori_x a * ori_y b - ori_y a * ori_x b + ori_z a * ori_w b,
      ori_w = ori_w a * ori_w b - ori_x a * ori_x b - ori_y a * ori_y b - ori_z a * ori_z b\<rparr>"

definition qconj :: "Quaternion \<Rightarrow> Quaternion" where
  "qconj a = \<lparr>ori_x = - ori_x a, ori_y = - ori_y a, ori_z = - ori_z a, ori_w = ori_w a\<rparr>"

definition qnorm2 :: "Quaternion \<Rightarrow> real" where
  "qnorm2 a = (ori_x a)\<^sup>2 + (ori_y a)\<^sup>2 + (ori_z a)\<^sup>2 + (ori_w a)\<^sup>2"

definition rotate_by_quaternion :: "Quaternion \<Rightarrow> real list \<Rightarrow> real list" where
  "rotate_by_quaternion q v =
     (let r = qmul (qmul q \<lparr>ori_x = v ! 0, ori_y = v ! 1, ori_z = v ! 2, ori_w = 0\<rparr>) (qconj q)
      in [ori_x r / qnorm2 q, ori_y r / qnorm2 q, ori_z r / qnorm2 q])"

text \<open>
  The specification's locator for a forward direction \<open>fwd\<close>: the candidates are the
  lights whose direction from the vehicle has a positive dot product with \<open>fwd\<close>; the
  result is the first candidate of minimum distance, none without candidates.
\<close>

definition nearest_ahead :: "real list \<Rightarrow> real list \<Rightarrow> TrafficLight list \<Rightarrow> nat option" where
  "nearest_ahead fwd ego ls =
     (let cands = filter (\<lambda>c. dot fwd (vsub (light_pos (snd c)) ego) > 0) (enumerate 0 ls)
      in if cands = [] then None
         else Some (fst (arg_min_list (\<lambda>c. norm2 (vsub ego (light_pos (snd c)))) cands)))"

definition locate_spec :: "Pose option \<Rightarrow> TrafficLight list \<Rightarrow> nat option" where
  "locate_spec po ls =
     (case po of
        None \<Rightarrow> None
      | Some p \<Rightarrow>
          nearest_ahead (rotate_by_quaternion (orientation p) [1, 0, 0])
            [pos_x (position p), pos_y (position p), pos_z (position p)] ls)"

text \<open>
  A vehicle at the origin whose orientation (0, 0, 3/5, 4/5) is a turn to the left about
  the z axis (its heading is (7/25, 24/25, 0)), and one light at (0, 5, 0).
\<close>

definition pose_left :: Pose where
  "pose_left =
     \<lparr>position = point 0 0 0,
      orientation = \<lparr>ori_x = 0, ori_y = 0, ori_z = 3 / 5, ori_w = 4 / 5\<rparr>\<rparr>"

definition lights_left :: "TrafficLight list" where
  "lights_left = [\<lparr>tl_position = point 0 5 0, tl_state = RED\<rparr>]"

definition node_left :: "(nat, nat) TLDetector" where
  "node_left = traffic_cb lights_left (pose_cb pose_left node0)"

section \<open>The debouncer\<close>

text \<open>The three branches of the cycle, one equation each.\<close>

lemma debounce_change:
  "state s \<noteq> c \<Longrightarrow>
   debounce w c s = (s\<lparr>state_count := 1, state := c\<rparr>, None)"
  by (simp add: debounce_def)

lemma debounce_carry:
  "state s = c \<Longrightarrow> state_count s < 3 \<Longrightarrow>
   debounce w c s = (s\<lparr>state_count := state_count s + 1\<rparr>, Some (last_wp s))"
  by (simp add: debounce_def STATE_COUNT_THRESHOLD_def)

lemma debounce_commit:
  "state s = c \<Longrightarrow> 3 \<le> state_count s \<Longrightarrow>
   debounce w c s =
     (s\<lparr>last_state := c, last_wp := (if c = RED then w else - 1),
        state_count := state_count s + 1\<rparr>,
      Some (if c = RED then w else - 1))"
  by (simp add: debounce_def STATE_COUNT_THRESHOLD_def Let_def)

lemma cycles_append:
  "cycles s (xs @ ys) =
     (let (s1, o1) = cycles s xs; (s2, o2) = cycles s1 ys in (s2, o1 @ o2))"
  by (induction xs arbitrary: s) (auto simp: Let_def split: prod.splits)

text \<open>While the counter stays within the threshold, repeating the stored colour only counts.\<close>

lemma cycles_carry:
  "state s = c \<Longrightarrow> \<forall>ob \<in> set obs. snd ob = c \<Longrightarrow> state_count s + length obs \<le> 3 \<Longrightarrow>
   cycles s obs =
     (s\<lparr>state_count := state_count s + length obs\<rparr>, replicate (length obs) (Some (last_wp s)))"
proof (induction obs arbitrary: s)
  case Nil
  then show ?case by simp
next
  case (Cons ob obs)
  obtain w where ob: "ob = (w, c)" using Cons.prems(2) by (cases ob) auto
  let ?s1 = "s\<lparr>state_count := state_count s + 1\<rparr>"
  have d: "debounce w c s = (?s1, Some (last_wp s))"
    using Cons.prems by (intro debounce_carry) auto
  have "cycles ?s1 obs =
     (?s1\<lparr>state_count := state_count ?s1 + length obs\<rparr>, replicate (length obs) (Some (last_wp ?s1)))"
    using Cons.prems by (intro Cons.IH) auto
  then show ?case using d ob by simp
qed

text \<open>A colour that differs from the stored one, observed up to three times in a row.\<close>

lemma cycles_fresh:
  assumes "state s \<noteq> c" and "\<forall>ob \<in> set obs. snd ob = c" and "obs \<noteq> []" and "length obs \<le> 3"
  shows "cycles s obs =
     (s\<lparr>state_count := length obs, state := c\<rparr>,
      None # replicate (length obs - 1) (Some (last_wp s)))"
proof -
  obtain w rest where obs: "obs = (w, c) # rest"
    using assms(2,3) by (cases obs) auto
  let ?s1 = "s\<lparr>state_count := 1, state := c\<rparr>"
  have "cycles ?s1 rest =
     (?s1\<lparr>state_count := state_count ?s1 + length rest\<rparr>, replicate (length rest) (Some (last_wp ?s1)))"
    using assms obs by (intro cycles_carry) auto
  then show ?thesis using obs assms(1) by (simp add: debounce_change)
qed

text \<open>
  C1, as amended. A colour that differs from the stored observation is committed on its
  fourth consecutive occurrence, not on its third: during the first three occurrences
  the stable colour and the stored waypoint stay as they were and whatever is published
  is the stored waypoint; the fourth occurrence sets the stable colour, stores the
  candidate waypoint (the sentinel unless the colour is red) and publishes it.
\<close>

theorem debounce_commits_on_fourth:
  assumes "state s \<noteq> c" and "\<forall>ob \<in> set obs. snd ob = c" and "length obs = 3"
  shows "(\<forall>n \<le> 3. last_state (fst (cycles s (take n obs))) = last_state s
              \<and> last_wp (fst (cycles s (take n obs))) = last_wp s
              \<and> (\<forall>out \<in> set (snd (cycles s (take n obs))). out = None \<or> out = Some (last_wp s)))
       \<and> last_state (fst (cycles s (obs @ [(w, c)]))) = c
       \<and> last_wp (fst (cycles s (obs @ [(w, c)]))) = (if c = RED then w else - 1)
       \<and> snd (cycles s (obs @ [(w, c)])) ! 3 = Some (if c = RED then w else - 1)"
proof -
  have quiet: "last_state (fst (cycles s (take n obs))) = last_state s
              \<and> last_wp (fst (cycles s (take n obs))) = last_wp s
              \<and> (\<forall>out \<in> set (snd (cycles s (take n obs))). out = None \<or> out = Some (last_wp s))"
    if "n \<le> 3" for n
  proof (cases "n = 0")
    case True
    then show ?thesis by simp
  next
    case False
    have "\<forall>ob \<in> set (take n obs). snd ob = c"
      using assms(2) by (meson in_set_takeD)
    moreover have "take n obs \<noteq> []" "length (take n obs) \<le> 3"
      using False assms(3) that by auto
    ultimately show ?thesis
      using cycles_fresh [OF assms(1), of "take n obs"] by auto
  qed
  have three: "cycles s obs = (s\<lparr>state_count := 3, state := c\<rparr>, None # replicate 2 (Some (last_wp s)))"
  proof -
    have "obs \<noteq> []" "length obs \<le> 3" using assms(3) by auto
    then show ?thesis using cycles_fresh [OF assms(1,2)] assms(3) by simp
  qed
  have "debounce w c (s\<lparr>state_count := 3, state := c\<rparr>) =
     ((s\<lparr>state_count := 3, state := c\<rparr>)\<lparr>last_state := c, last_wp := (if c = RED then w else - 1),
        state_count := 3 + 1\<rparr>,
      Some (if c = RED then w else - 1))"
    using debounce_commit [of "s\<lparr>state_count := 3, state := c\<rparr>" c w] by simp
  then have "cycles s (obs @ [(w, c)]) =
     ((s\<lparr>state_count := 3, state := c\<rparr>)\<lparr>last_state := c, last_wp := (if c = RED then w else - 1),
        state_count := 3 + 1\<rparr>,
      [None, Some (last_wp s), Some (last_wp s), Some (if c = RED then w else - 1)])"
    using three by (simp add: cycles_append numeral_2_eq_2)
  then show ?thesis using quiet by simp
qed

text \<open>The theorem at a fresh node: three red samples commit nothing, the fourth commits.\<close>

theorem debounce_commits_on_fourth_witness:
  "state node0 \<noteq> RED
   \<and> last_state (fst (cycles node0 [(1, RED), (1, RED), (1, RED)])) = UNKNOWN
   \<and> last_wp (fst (cycles node0 [(1, RED), (1, RED), (1, RED)])) = - 1
   \<and> last_state (fst (cycles node0 [(1, RED), (1, RED), (1, RED), (1, RED)])) = RED
   \<and> last_wp (fst (cycles node0 [(1, RED), (1, RED), (1, RED), (1, RED)])) = 1
   \<and> snd (cycles node0 [(1, RED), (1, RED), (1, RED), (1, RED)]) ! 3 = Some 1"
  using debounce_commits_on_fourth [of node0 RED "[(1, RED), (1, RED), (1, RED)]" 1]
  by (simp add: node0_def init_def debounce_def STATE_COUNT_THRESHOLD_def UNKNOWN_def RED_def)

text \<open>
  C1 as stated fails on its own example: after RED, RED, GREEN, RED, RED, RED from the
  initial state the sixth sample has committed nothing. The stable colour is still
  UNKNOWN, the stored waypoint the sentinel, and the sixth sample publishes the sentinel.
\<close>

theorem six_samples_no_commit:
  "last_state (fst (cycles node0 [(1, RED), (1, RED), (1, GREEN), (1, RED), (1, RED), (1, RED)])) = UNKNOWN
   \<and> last_wp (fst (cycles node0 [(1, RED), (1, RED), (1, GREEN), (1, RED), (1, RED), (1, RED)])) = - 1
   \<and> snd (cycles node0 [(1, RED), (1, RED), (1, GREEN), (1, RED), (1, RED), (1, RED)])
       = [None, Some (- 1), None, None, Some (- 1), Some (- 1)]"
  by (simp add: node0_def init_def debounce_def STATE_COUNT_THRESHOLD_def
      UNKNOWN_def RED_def GREEN_def)



section \<open>The index\<close>










section \<open>The build guard\<close>

text \<open>The cycle touches neither the index nor its flag.\<close>

lemma debounce_index:
  "debounce w c s = (s', out) \<Longrightarrow>
   light_waypoints s' = light_waypoints s \<and> light_indexed s' = light_indexed s"
  by (auto simp: debounce_def Let_def split: if_splits)

lemma after_image_cb_index [simp]:
  "light_waypoints (after_image_cb msg s) = light_waypoints s"
  "light_indexed (after_image_cb msg s) = light_indexed s"
  by (auto simp: after_image_cb_def image_cb_def Let_def split: sum.splits prod.splits
      dest: debounce_index)







text \<open>The example node, after its build, seen through the example messages.\<close>

lemma waypoint_indices0: "waypoint_indices route0 (hd lights0) = [1, 0, 2]"
  by (simp add: waypoint_indices_def distances_def route0_def lights0_def point_def sq_distance_def enumerate_eq_zip upt_rec)

lemma node1_eq:
  "light_waypoints node1 = [[1, 0, 2]] \<and> light_indexed node1 \<and> lights node1 = lights0
   \<and> waypoints node1 = route0 \<and> pose node1 = Some pose0"
  using waypoint_indices0
  by (simp add: node1_def traffic_cb_def waypoints_cb_def pose_cb_def should_index_def index_lights_def node0_def init_def Let_def route0_def lights0_def)


text \<open>The run that delivers pose, route and lights to a fresh node builds once.\<close>

lemma builds_node0: "builds node0 [PoseMsg pose0, WaypointsMsg route0, LightsMsg lights0] = 1"
  by (simp add: should_index_def pose_cb_def waypoints_cb_def node0_def init_def
      route0_def lights0_def)




section \<open>The cycle\<close>

text \<open>The image stored by \<open>image_cb\<close> reaches neither the locator nor the colour.\<close>

lemma get_closest_light_image [simp]:
  "get_closest_light (s\<lparr>has_image := h, camera_image := c\<rparr>) p = get_closest_light s p"
  by (simp add: get_closest_light_def Let_def split: option.splits)

lemma get_light_wp_image [simp]:
  "get_light_wp (s\<lparr>has_image := h, camera_image := c\<rparr>) li = get_light_wp s li"
  by (simp add: get_light_wp_def)

lemma get_light_state_image [simp]:
  "get_light_state (s\<lparr>has_image := True, camera_image := c\<rparr>) light = tl_state light"
  by (simp add: get_light_state_def project_to_image_plane_def Let_def)

lemma get_light_wp_empty: "light_waypoints s = [] \<Longrightarrow> get_light_wp s li = Inl IndexError"
  by (simp add: get_light_wp_def index_def)

lemma get_light_wp_Inr:
  "get_light_wp s li = Inr w \<Longrightarrow>
   li < length (light_waypoints s) \<and> light_waypoints s ! li \<noteq> []
   \<and> w = hd (light_waypoints s ! li)"
  by (auto simp: get_light_wp_def index_def hd_conv_nth split: if_splits)

text \<open>
  C3. A cycle that locates a light while the index is still empty does not publish the
  sentinel: \<open>get_light_wp\<close> reads \<open>self.light_waypoints[light_index]\<close> unguarded and
  raises IndexError, so the cycle ends without a value. The claim that the cycle
  completes with the sentinel fails there.
\<close>

theorem unbuilt_index_raises:
  assumes "pose s = Some p" and "get_closest_light s p = Inr (Some li)"
    and "light_waypoints s = []"
  shows "image_cb msg s = Inl IndexError"
  using assms
  by (simp add: image_cb_def process_traffic_lights_def get_light_wp_empty index_def)

text \<open>The example scene: the vehicle at the origin, heading along x, sees light 0.\<close>

lemma ego_dir_pose0: "ego_dir (orientation pose0) = [1, 0, 0]"
  by (simp add: ego_dir_def pose0_def quaternion_matrix_def dot_def EPS_def matmul_def upt_rec Let_def)

lemma closest0: "closest_loop [0, 0, 0] [1, 0, 0] (enumerate 0 lights0) None None = Some 0"
  by (simp add: lights0_def light_pos_def point_def vsub_def dot_def below_def norm2_def Let_def)

lemma node_unindexed_eq:
  "pose node_unindexed = Some pose0 \<and> lights node_unindexed = lights0
   \<and> light_waypoints node_unindexed = [] \<and> \<not> light_indexed node_unindexed"
  by (simp add: node_unindexed_def traffic_cb_def pose_cb_def should_index_def node0_def init_def)

lemma locate_pose0:
  "pose s = Some pose0 \<Longrightarrow> lights s = lights0 \<Longrightarrow> get_closest_light s p = Inr (Some 0)"
  using closest0 ego_dir_pose0
  by (simp add: get_closest_light_def) (simp add: pose0_def point_def)

text \<open>Pose and lights have arrived, the route has not: the first image raises.\<close>

theorem unbuilt_index_raises_witness:
  "pose node_unindexed = Some pose0
   \<and> get_closest_light node_unindexed pose0 = Inr (Some 0)
   \<and> light_waypoints node_unindexed = []
   \<and> \<not> light_indexed node_unindexed
   \<and> image_cb 7 node_unindexed = Inl IndexError"
  using unbuilt_index_raises [of node_unindexed pose0 0 7] node_unindexed_eq
    locate_pose0 [of node_unindexed pose0]
  by simp

lemma process_traffic_lights_image:
  "process_traffic_lights (s\<lparr>has_image := True, camera_image := c\<rparr>)
   = process_traffic_lights (s\<lparr>has_image := True, camera_image := None\<rparr>)"
  by (simp add: process_traffic_lights_def cong: option.case_cong sum.case_cong)

lemma debounce_camera_image:
  "debounce w c (s\<lparr>camera_image := x\<rparr>)
   = ((fst (debounce w c s))\<lparr>camera_image := x\<rparr>, snd (debounce w c s))"
  by (simp add: debounce_def Let_def)

lemma process_located:
  assumes "process_traffic_lights s = Inr (w, c)"
  shows "(w = - 1 \<and> c = UNKNOWN
          \<and> (pose s = None \<or> (\<exists>p. pose s = Some p \<and> get_closest_light s p = Inr None)))
       \<or> (\<exists>p li. pose s = Some p \<and> get_closest_light s p = Inr (Some li)
            \<and> li < length (lights s) \<and> c = get_light_state s (lights s ! li)
            \<and> li < length (light_waypoints s) \<and> light_waypoints s ! li \<noteq> []
            \<and> w = int (hd (light_waypoints s ! li)))"
  using assms
  by (auto simp: process_traffic_lights_def index_def
      split: option.splits sum.splits if_splits dest!: get_light_wp_Inr)

text \<open>
  C9. The colour obtained for a light is the light's own \<open>state\<close> field, whatever the
  image; two cycles from the same node that differ only in the image observe the same
  candidate waypoint and colour, publish the same value (or raise the same error), and
  leave nodes that differ at most in the stored image. The external conversion of the
  image is an arbitrary function here; its result is never read.
\<close>

theorem image_noninterference:
  "get_light_state (s\<lparr>has_image := True, camera_image := Some img1\<rparr>) light = tl_state light
   \<and> get_light_state (s\<lparr>has_image := True, camera_image := Some img2\<rparr>) light = tl_state light
   \<and> (pose s = Some p \<and> get_closest_light s p = Inr (Some li)
        \<and> process_traffic_lights (s\<lparr>has_image := True, camera_image := Some img1\<rparr>) = Inr (w, c)
      \<longrightarrow> c = tl_state (lights s ! li))
   \<and> process_traffic_lights (s\<lparr>has_image := True, camera_image := Some img1\<rparr>)
       = process_traffic_lights (s\<lparr>has_image := True, camera_image := Some img2\<rparr>)
   \<and> map_sum id snd (image_cb img1 s) = map_sum id snd (image_cb img2 s)
   \<and> map_sum id (\<lambda>r. (fst r)\<lparr>camera_image := None\<rparr>) (image_cb img1 s)
       = map_sum id (\<lambda>r. (fst r)\<lparr>camera_image := None\<rparr>) (image_cb img2 s)"
proof -
  let ?s1 = "s\<lparr>has_image := True, camera_image := Some img1\<rparr>"
  let ?s2 = "s\<lparr>has_image := True, camera_image := Some img2\<rparr>"
  have p: "process_traffic_lights ?s1 = process_traffic_lights ?s2"
    using process_traffic_lights_image [where s = s and c = "Some img1"]
      process_traffic_lights_image [where s = s and c = "Some img2"] by simp
  have truth: "c = tl_state (lights s ! li)"
    if "pose s = Some p" "get_closest_light s p = Inr (Some li)"
      "process_traffic_lights ?s1 = Inr (w, c)"
    using process_located [OF that(3)] that(1,2) by (auto simp: UNKNOWN_def)
  have d: "debounce w c ?s1 =
      ((fst (debounce w c (s\<lparr>has_image := True\<rparr>)))\<lparr>camera_image := Some img1\<rparr>,
       snd (debounce w c (s\<lparr>has_image := True\<rparr>)))" for w c
    using debounce_camera_image [where s = "s\<lparr>has_image := True\<rparr>" and x = "Some img1"] by simp
  have d': "debounce w c ?s2 =
      ((fst (debounce w c (s\<lparr>has_image := True\<rparr>)))\<lparr>camera_image := Some img2\<rparr>,
       snd (debounce w c (s\<lparr>has_image := True\<rparr>)))" for w c
    using debounce_camera_image [where s = "s\<lparr>has_image := True\<rparr>" and x = "Some img2"] by simp
  have out: "map_sum id snd (image_cb img1 s) = map_sum id snd (image_cb img2 s)"
    unfolding image_cb_def Let_def p [symmetric]
    by (cases "process_traffic_lights ?s1") (auto simp: d d')
  have st: "map_sum id (\<lambda>r. (fst r)\<lparr>camera_image := None\<rparr>) (image_cb img1 s)
       = map_sum id (\<lambda>r. (fst r)\<lparr>camera_image := None\<rparr>) (image_cb img2 s)"
    unfolding image_cb_def Let_def p [symmetric]
    by (cases "process_traffic_lights ?s1") (auto simp: d d')
  show ?thesis using p truth out st by simp
qed

lemma process_node1:
  "process_traffic_lights (node1\<lparr>has_image := True, camera_image := Some img\<rparr>) = Inr (1, RED)"
  using node1_eq locate_pose0 [of node1 pose0]
  by (simp add: process_traffic_lights_def get_light_wp_def index_def lights0_def)

text \<open>Images 7 and 8 at the example node: both cycles observe (1, RED).\<close>

theorem image_noninterference_witness:
  "pose node1 = Some pose0
   \<and> get_closest_light node1 pose0 = Inr (Some 0)
   \<and> process_traffic_lights (node1\<lparr>has_image := True, camera_image := Some 7\<rparr>) = Inr (1, RED)
   \<and> RED = tl_state (lights node1 ! 0)
   \<and> map_sum id snd (image_cb 7 node1) = map_sum id snd (image_cb 8 node1)"
  using image_noninterference [where s = node1 and ?img1.0 = 7 and ?img2.0 = 8 and p = pose0
      and li = 0 and w = 1 and c = RED]
    node1_eq locate_pose0 [of node1 pose0] process_node1 [of 7]
  by simp

text \<open>The cycle is the debouncer applied to what \<open>process_traffic_lights\<close> observes.\<close>

lemma image_cb_debounce:
  "process_traffic_lights (s\<lparr>has_image := True, camera_image := Some msg\<rparr>) = Inr (w, c) \<Longrightarrow>
   image_cb msg s = Inr (debounce w c (s\<lparr>has_image := True, camera_image := Some msg\<rparr>))"
  by (simp add: image_cb_def)

text \<open>
  C2. On a cycle whose observed colour differs from the stored one the code resets the
  counter (it is 1 when the cycle ends) and keeps the stable colour and the stored
  waypoint, but it publishes nothing: the first branch of \<open>image_cb\<close> has no call of
  \<open>publish\<close>, although the comment above it announces a publication at camera
  frequency and the last branch publishes the stored waypoint. The claim that every
  cycle publishes one value fails there.
\<close>

theorem change_cycle_publishes_nothing:
  assumes "process_traffic_lights (s\<lparr>has_image := True, camera_image := Some msg\<rparr>) = Inr (w, c)"
    and "state s \<noteq> c"
  shows "map_sum id snd (image_cb msg s) = Inr None
       \<and> state_count (after_image_cb msg s) = 1
       \<and> last_wp (after_image_cb msg s) = last_wp s
       \<and> last_state (after_image_cb msg s) = last_state s"
  using assms
  by (simp add: after_image_cb_def image_cb_debounce debounce_change)

text \<open>The first image at the example node observes red and publishes nothing.\<close>

theorem change_cycle_publishes_nothing_witness:
  "process_traffic_lights (node1\<lparr>has_image := True, camera_image := Some 7\<rparr>) = Inr (1, RED)
   \<and> state node1 \<noteq> RED
   \<and> map_sum id snd (image_cb 7 node1) = Inr None
   \<and> state_count (after_image_cb 7 node1) = 1
   \<and> last_wp (after_image_cb 7 node1) = - 1"
proof -
  have s: "state node1 = UNKNOWN" "last_wp node1 = - 1"
    by (simp_all add: node1_def traffic_cb_def waypoints_cb_def pose_cb_def index_lights_def
        node0_def init_def Let_def)
  show ?thesis
    using change_cycle_publishes_nothing [where s = node1 and msg = 7 and w = 1 and c = RED]
      process_node1 [of 7] s
    by (simp add: UNKNOWN_def RED_def)
qed

section \<open>The stored waypoint\<close>


lemma last_wp_inv_image [simp]:
  "last_wp_inv (s\<lparr>has_image := h, camera_image := c\<rparr>) = last_wp_inv s"
  by (simp add: last_wp_inv_def)










section \<open>The locator\<close>

text \<open>
  The first row of the quaternion's matrix, which the product of the row vector
  (1, 0, 0, 0) with the matrix selects.
\<close>

lemma scaled_product:
  assumes "0 < n"
  shows "(a * sqrt (2 / n)) * (b * sqrt (2 / n)) = 2 * a * b / n"
proof -
  have "sqrt (2 / n) * sqrt (2 / n) = 2 / n"
    using assms by simp
  then have "(a * sqrt (2 / n)) * (b * sqrt (2 / n)) = a * b * (2 / n)"
    by (simp add: mult.assoc mult.left_commute)
  then show ?thesis by simp
qed

lemma ego_dir_eq:
  assumes "EPS \<le> qnorm2 q"
  shows "ego_dir q =
     [1 - 2 * ori_y q * ori_y q / qnorm2 q - 2 * ori_z q * ori_z q / qnorm2 q,
      2 * ori_x q * ori_y q / qnorm2 q - 2 * ori_z q * ori_w q / qnorm2 q,
      2 * ori_x q * ori_z q / qnorm2 q + 2 * ori_y q * ori_w q / qnorm2 q]"
proof -
  have n: "dot [ori_x q, ori_y q, ori_z q, ori_w q] [ori_x q, ori_y q, ori_z q, ori_w q] = qnorm2 q"
    by (simp add: dot_def qnorm2_def power2_eq_square)
  have pos: "0 < qnorm2 q"
    using assms by (simp add: EPS_def)
  have m: "quaternion_matrix [ori_x q, ori_y q, ori_z q, ori_w q] =
     [[1 - 2 * ori_y q * ori_y q / qnorm2 q - 2 * ori_z q * ori_z q / qnorm2 q,
       2 * ori_x q * ori_y q / qnorm2 q - 2 * ori_z q * ori_w q / qnorm2 q,
       2 * ori_x q * ori_z q / qnorm2 q + 2 * ori_y q * ori_w q / qnorm2 q, 0],
      [2 * ori_x q * ori_y q / qnorm2 q + 2 * ori_z q * ori_w q / qnorm2 q,
       1 - 2 * ori_x q * ori_x q / qnorm2 q - 2 * ori_z q * ori_z q / qnorm2 q,
       2 * ori_y q * ori_z q / qnorm2 q - 2 * ori_x q * ori_w q / qnorm2 q, 0],
      [2 * ori_x q * ori_z q / qnorm2 q - 2 * ori_y q * ori_w q / qnorm2 q,
       2 * ori_y q * ori_z q / qnorm2 q + 2 * ori_x q * ori_w q / qnorm2 q,
       1 - 2 * ori_x q * ori_x q / qnorm2 q - 2 * ori_y q * ori_y q / qnorm2 q, 0],
      [0, 0, 0, 1]]"
    using assms by (simp add: quaternion_matrix_def n Let_def scaled_product [OF pos])
  have up: "[0..<4] = [0, 1, 2, 3]"
    by (simp add: upt_rec)
  show ?thesis
    unfolding ego_dir_def Let_def m
    by (simp add: matmul_def up dot_def)
qed

lemma rotate_forward:
  "rotate_by_quaternion q [1, 0, 0] =
     [((ori_w q)\<^sup>2 + (ori_x q)\<^sup>2 - (ori_y q)\<^sup>2 - (ori_z q)\<^sup>2) / qnorm2 q,
      2 * (ori_x q * ori_y q + ori_z q * ori_w q) / qnorm2 q,
      2 * (ori_x q * ori_z q - ori_y q * ori_w q) / qnorm2 q]"
  by (simp add: rotate_by_quaternion_def qmul_def qconj_def Let_def power2_eq_square algebra_simps)


lemma qnorm2_qconj [simp]: "qnorm2 (qconj q) = qnorm2 q"
  by (simp add: qnorm2_def qconj_def)

text \<open>The code's direction is the rotation of (1, 0, 0) by the conjugate quaternion.\<close>

lemma ego_dir_inverse:
  assumes "EPS \<le> qnorm2 q"
  shows "ego_dir q = rotate_by_quaternion (qconj q) [1, 0, 0]"
proof -
  have pos: "qnorm2 q \<noteq> 0"
    using assms by (simp add: EPS_def)
  have one: "1 - 2 * ori_y q * ori_y q / qnorm2 q - 2 * ori_z q * ori_z q / qnorm2 q
      = ((ori_w q)\<^sup>2 + (ori_x q)\<^sup>2 - (ori_y q)\<^sup>2 - (ori_z q)\<^sup>2) / qnorm2 q"
  proof -
    have "1 = qnorm2 q / qnorm2 q" using pos by simp
    then have "1 - 2 * ori_y q * ori_y q / qnorm2 q - 2 * ori_z q * ori_z q / qnorm2 q
      = (qnorm2 q - 2 * ori_y q * ori_y q - 2 * ori_z q * ori_z q) / qnorm2 q"
      by (simp add: diff_divide_distrib)
    also have "qnorm2 q - 2 * ori_y q * ori_y q - 2 * ori_z q * ori_z q
      = (ori_w q)\<^sup>2 + (ori_x q)\<^sup>2 - (ori_y q)\<^sup>2 - (ori_z q)\<^sup>2"
      by (simp add: qnorm2_def power2_eq_square)
    finally show ?thesis .
  qed
  have c: "ori_x (qconj q) = - ori_x q" "ori_y (qconj q) = - ori_y q"
    "ori_z (qconj q) = - ori_z q" "ori_w (qconj q) = ori_w q"
    by (simp_all add: qconj_def)
  show ?thesis
    unfolding ego_dir_eq [OF assms] rotate_forward one c qnorm2_qconj
    by (simp add: diff_divide_distrib add_divide_distrib)
qed

text \<open>The loop skips the lights that are not ahead.\<close>

lemma closest_loop_filter:
  "closest_loop ego d xs m r =
   closest_loop ego d (filter (\<lambda>c. dot d (vsub (light_pos (snd c)) ego) > 0) xs) m r"
  by (induction ego d xs m r rule: closest_loop.induct) (simp_all add: Let_def)

lemma closest_loop_ahead:
  assumes "dot d (vsub (light_pos (snd c)) ego) > 0"
  shows "closest_loop ego d (c # cs) m r =
     (if below (norm2 (vsub ego (light_pos (snd c)))) m
      then closest_loop ego d cs (Some (norm2 (vsub ego (light_pos (snd c))))) (Some (fst c))
      else closest_loop ego d cs m r)"
  using assms by (cases c) (simp add: Let_def)

lemma arg_min_list_Cons:
  "cs \<noteq> [] \<Longrightarrow>
   arg_min_list g (c # cs) = (if g c \<le> g (arg_min_list g cs) then c else arg_min_list g cs)"
  by (cases cs) (simp_all add: Let_def)

text \<open>Over lights that are all ahead, the loop keeps the first light of least distance.\<close>

lemma closest_loop_candidates:
  assumes "\<forall>c \<in> set cs. dot d (vsub (light_pos (snd c)) ego) > 0"
  shows "closest_loop ego d cs (Some dm) (Some k) =
     (if cs \<noteq> [] \<and>
         norm2 (vsub ego (light_pos (snd
           (arg_min_list (\<lambda>c. norm2 (vsub ego (light_pos (snd c)))) cs)))) < dm
      then Some (fst (arg_min_list (\<lambda>c. norm2 (vsub ego (light_pos (snd c)))) cs))
      else Some k)"
proof -
  define g where "g = (\<lambda>c :: nat \<times> TrafficLight. norm2 (vsub ego (light_pos (snd c))))"
  have step: "closest_loop ego d (c # cs) m r =
     (if below (g c) m then closest_loop ego d cs (Some (g c)) (Some (fst c))
      else closest_loop ego d cs m r)"
    if "dot d (vsub (light_pos (snd c)) ego) > 0" for c cs m r
    using closest_loop_ahead [OF that] by (simp add: g_def)
  have "closest_loop ego d cs (Some dm) (Some k) =
     (if cs \<noteq> [] \<and> g (arg_min_list g cs) < dm then Some (fst (arg_min_list g cs)) else Some k)"
    using assms
  proof (induction cs arbitrary: dm k)
    case Nil
    then show ?case by simp
  next
    case (Cons c cs)
    have ahead: "dot d (vsub (light_pos (snd c)) ego) > 0" using Cons.prems by simp
    have rest: "\<forall>c \<in> set cs. dot d (vsub (light_pos (snd c)) ego) > 0" using Cons.prems by simp
    note IH = Cons.IH [OF rest]
    show ?case
    proof (cases "cs = []")
      case True
      then show ?thesis by (simp add: step [OF ahead] below_def)
    next
      case False
      show ?thesis
      proof (cases "g c < dm")
        case True
        then have "closest_loop ego d (c # cs) (Some dm) (Some k) =
            closest_loop ego d cs (Some (g c)) (Some (fst c))"
          by (simp add: step [OF ahead] below_def)
        also have "\<dots> = (if g (arg_min_list g cs) < g c then Some (fst (arg_min_list g cs))
            else Some (fst c))"
          using IH [of "g c" "fst c"] False by simp
        finally show ?thesis
          using True False by (auto simp: arg_min_list_Cons)
      next
        case no: False
        then have "closest_loop ego d (c # cs) (Some dm) (Some k) =
            closest_loop ego d cs (Some dm) (Some k)"
          by (simp add: step [OF ahead] below_def)
        also have "\<dots> = (if g (arg_min_list g cs) < dm then Some (fst (arg_min_list g cs))
            else Some k)"
          using IH [of dm k] False by simp
        finally show ?thesis
          using no False by (auto simp: arg_min_list_Cons)
      qed
    qed
  qed
  then show ?thesis by (simp add: g_def)
qed

lemma closest_loop_nearest_ahead:
  "closest_loop ego d (enumerate 0 ls) None None = nearest_ahead d ego ls"
proof -
  define g where "g = (\<lambda>c :: nat \<times> TrafficLight. norm2 (vsub ego (light_pos (snd c))))"
  define cs where
    "cs = filter (\<lambda>c. dot d (vsub (light_pos (snd c)) ego) > 0) (enumerate 0 ls)"
  have all: "\<forall>c \<in> set cs. dot d (vsub (light_pos (snd c)) ego) > 0"
    by (simp add: cs_def)
  have "closest_loop ego d cs None None =
      (if cs = [] then None else Some (fst (arg_min_list g cs)))"
  proof (cases cs)
    case Nil
    then show ?thesis by simp
  next
    case (Cons c cs')
    have ahead: "dot d (vsub (light_pos (snd c)) ego) > 0" and
      rest: "\<forall>c \<in> set cs'. dot d (vsub (light_pos (snd c)) ego) > 0"
      using all Cons by auto
    have "closest_loop ego d (c # cs') None None =
        closest_loop ego d cs' (Some (g c)) (Some (fst c))"
      by (simp add: closest_loop_ahead [OF ahead] below_def g_def)
    also have "\<dots> = Some (fst (arg_min_list g (c # cs')))"
    proof (cases "cs' = []")
      case True
      then show ?thesis by simp
    next
      case False
      then show ?thesis
        using closest_loop_candidates [OF rest, where dm = "g c" and k = "fst c"]
        by (auto simp: arg_min_list_Cons g_def)
    qed
    finally show ?thesis using Cons by simp
  qed
  then show ?thesis
    using closest_loop_filter [of ego d "enumerate 0 ls" None None]
    by (simp add: nearest_ahead_def Let_def cs_def g_def)
qed

text \<open>With the direction the code computes, the locator is the specification's.\<close>

lemma get_closest_light_nearest_ahead:
  "pose s = Some p \<Longrightarrow>
   get_closest_light s p' =
     Inr (nearest_ahead (ego_dir (orientation p))
            [pos_x (position p), pos_y (position p), pos_z (position p)] (lights s))"
  by (simp add: get_closest_light_def closest_loop_nearest_ahead)

lemma ego_dir_left: "ego_dir (orientation pose_left) = [7 / 25, - (24 / 25), 0]"
proof -
  have "EPS \<le> qnorm2 (orientation pose_left)"
    by (simp add: EPS_def qnorm2_def pose_left_def power2_eq_square)
  then show ?thesis
    by (simp add: ego_dir_eq) (simp add: pose_left_def qnorm2_def power2_eq_square)
qed

text \<open>
  C6. The candidate test, the minimum search and its tie-break are the claim's (the three
  lemmas above), but the forward direction is not the rotation of (1, 0, 0) by the
  orientation: \<open>np.matmul(init_dir, rot)\<close> multiplies the row vector from the left, which
  selects the first row of the matrix where the rotated axis is its first column, so the
  code rotates by the inverse orientation. For the vehicle turned to the left the heading
  is (7/25, 24/25, 0) and the light at (0, 5, 0) lies ahead; the code computes
  (7/25, -24/25, 0), finds no light ahead and the cycle observes (-1, UNKNOWN).
\<close>

theorem locator_misses_light_ahead:
  "rotate_by_quaternion (orientation pose_left) [1, 0, 0] = [7 / 25, 24 / 25, 0]
   \<and> ego_dir (orientation pose_left) = [7 / 25, - (24 / 25), 0]
   \<and> pose node_left = Some pose_left \<and> lights node_left = lights_left
   \<and> locate_spec (pose node_left) (lights node_left) = Some 0
   \<and> get_closest_light node_left pose_left = Inr None
   \<and> process_traffic_lights node_left = Inr (- 1, UNKNOWN)"
proof -
  have f: "rotate_by_quaternion (orientation pose_left) [1, 0, 0] = [7 / 25, 24 / 25, 0]"
    by (simp add: rotate_forward) (simp add: pose_left_def qnorm2_def power2_eq_square)
  have n: "pose node_left = Some pose_left" "lights node_left = lights_left"
    by (simp_all add: node_left_def traffic_cb_def pose_cb_def should_index_def node0_def init_def)
  have s: "locate_spec (pose node_left) (lights node_left) = Some 0"
    unfolding n locate_spec_def option.case f
    by (simp add: nearest_ahead_def lights_left_def light_pos_def point_def pose_left_def
        vsub_def dot_def)
  have c: "get_closest_light node_left pose_left = Inr None"
    unfolding get_closest_light_nearest_ahead [OF n(1)] n ego_dir_left
    by (simp add: nearest_ahead_def lights_left_def light_pos_def point_def pose_left_def
        vsub_def dot_def)
  have "process_traffic_lights node_left = Inr (- 1, UNKNOWN)"
    using c n by (simp add: process_traffic_lights_def)
  then show ?thesis using f ego_dir_left n s c by simp
qed

end
